theory Spec2Isabelle
  imports Complex_Main "HOL-Library.Sublist"
begin

section \<open>JavaScript numbers\<close>

text \<open>
  A JavaScript number is an IEEE-754 binary64 value. A finite one is given by its sign
  (\<open>True\<close> for negative), an integral significand and a binary exponent, and denotes
  \<open>(-1)^sign * significand * 2^exponent\<close>; the other values are the two infinities
  (\<open>Infinity True\<close> is the negative one) and NaN.
\<close>

datatype number = NaN | Infinity bool | Finite bool nat int

definition pow2 :: "int \<Rightarrow> real" where
  "pow2 e = (if 0 \<le> e then 2 ^ nat e else 1 / 2 ^ nat (- e))"

definition finite_value :: "bool \<Rightarrow> nat \<Rightarrow> int \<Rightarrow> real" where
  "finite_value neg m e = (if neg then - (real m * pow2 e) else real m * pow2 e)"

text \<open>The triples that binary64 can hold: 53 bits of significand, exponents from the
  subnormal range up to the largest finite one.\<close>

fun is_binary64 :: "number \<Rightarrow> bool" where
  "is_binary64 (Finite neg m e) = (m < 2 ^ 53 \<and> - 1074 \<le> e \<and> e \<le> 971)"
| "is_binary64 _ = True"

text \<open>The abstract operation \<open>Number::lessThan(x, y)\<close> of the language: undefined
  (\<open>None\<close>) when an operand is NaN.\<close>

fun Number_lessThan :: "number \<Rightarrow> number \<Rightarrow> bool option" where
  "Number_lessThan NaN y = None"
| "Number_lessThan x NaN = None"
| "Number_lessThan (Infinity xneg) (Infinity yneg) = Some (xneg \<and> \<not> yneg)"
| "Number_lessThan (Infinity xneg) (Finite yn ym ye) = Some xneg"
| "Number_lessThan (Finite xn xm xe) (Infinity yneg) = Some (\<not> yneg)"
| "Number_lessThan (Finite xn xm xe) (Finite yn ym ye) =
     Some (finite_value xn xm xe < finite_value yn ym ye)"

text \<open>\<open>a > b\<close> evaluates \<open>lessThan(b, a)\<close> and takes an undefined result as false.\<close>

definition js_gt :: "number \<Rightarrow> number \<Rightarrow> bool" where
  "js_gt a b = (case Number_lessThan b a of None \<Rightarrow> False | Some r \<Rightarrow> r)"

text \<open>The numeric literals of the source, as the binary64 values they are read as.\<close>

definition lit_0_7 :: number where "lit_0_7 = Finite False 6305039478318694 (- 53)"
definition lit_0_8 :: number where "lit_0_8 = Finite False 7205759403792794 (- 53)"
definition lit_0_9 :: number where "lit_0_9 = Finite False 8106479329266893 (- 53)"
definition lit_0_5 :: number where "lit_0_5 = Finite False 1 (- 1)"
definition lit_2_5 :: number where "lit_2_5 = Finite False 5 (- 1)"

section \<open>Authentication and the protected route (App.js)\<close>

text \<open>What \<open>useAuth()\<close> hands to the components of App.js: \<open>ProtectedRoute\<close> reads
  \<open>isAuthenticated\<close>, \<open>Login\<close> reads \<open>login\<close> (and never calls it).\<close>

record AuthContext =
  isAuthenticated :: bool

datatype element = DashboardElement | LoginElement | Navigate string

definition ProtectedRoute :: "AuthContext \<Rightarrow> element \<Rightarrow> element" where
  "ProtectedRoute auth children =
     (if isAuthenticated auth then children else Navigate ''/login'')"

text \<open>Modelled from the spec: the session state of section 3 (\<open>SessionState\<close>) and its
  three statuses; the source file holds no declaration of them.\<close>

datatype status = anonymous | pending | authenticated

record SessionState =
  status :: status
  accessToken :: "string option"
  expiresAt :: "int option"

text \<open>Modelled from the spec: \<open>contexts/AuthContext\<close> (\<open>AuthProvider\<close>, \<open>useAuth\<close>) is
  imported by App.js and is not among the sources. Section 2 has the controller expose
  \<open>isAuthenticated\<close>, and section 4.3 has the guard admit a session iff its status is
  \<open>authenticated\<close>.\<close>

definition useAuth :: "SessionState \<Rightarrow> AuthContext" where
  "useAuth session = \<lparr> isAuthenticated = (status session = authenticated) \<rparr>"

text \<open>The route guard on a session: does the \<open>/dashboard\<close> route render its child?\<close>

definition canAccess :: "SessionState \<Rightarrow> bool" where
  "canAccess session = (ProtectedRoute (useAuth session) DashboardElement = DashboardElement)"

text \<open>Modelled from the spec: the expiry condition of section 4.2, \<open>now \<ge> expiresAt\<close>;
  a session with no \<open>expiresAt\<close> does not expire.\<close>

definition expired :: "int \<Rightarrow> SessionState \<Rightarrow> bool" where
  "expired now session = (case expiresAt session of None \<Rightarrow> False | Some t \<Rightarrow> t \<le> now)"

text \<open>Modelled from the spec: the expiry transition of the controller in
  \<open>contexts/AuthContext\<close>, which is not among the sources. Sections 3 and 4.2 have an
  \<open>authenticated\<close> session whose \<open>expiresAt\<close> is reached reset to \<open>anonymous\<close>, its token
  cleared as on logout; any other session is left as it is.\<close>

definition expire :: "int \<Rightarrow> SessionState \<Rightarrow> SessionState" where
  "expire now session =
     (if status session = authenticated \<and> expired now session
      then \<lparr> status = anonymous, accessToken = None, expiresAt = None \<rparr>
      else session)"

text \<open>Modelled from the spec: a protected operation at time \<open>now\<close> (section 4.2) sees the
  session after the expiry transition, and the guard of App.js decides on that.\<close>

definition canAccessAt :: "int \<Rightarrow> SessionState \<Rightarrow> bool" where
  "canAccessAt now session = canAccess (expire now session)"

section \<open>The login view (App.js)\<close>

text \<open>\<open>process.env\<close>: a variable that is not set reads as \<open>undefined\<close>, which a
  template literal prints as the text \<open>undefined\<close>.\<close>

type_synonym env = "string \<rightharpoonup> string"

definition template_text :: "string option \<Rightarrow> string" where
  "template_text v = (case v of None \<Rightarrow> ''undefined'' | Some s \<Rightarrow> s)"

definition authorizeUrl :: "env \<Rightarrow> string" where
  "authorizeUrl env =
     ''https://login.microsoftonline.com/'' @ template_text (env ''REACT_APP_TENANT_ID'')
     @ ''/oauth2/v2.0/authorize?client_id='' @ template_text (env ''REACT_APP_CLIENT_ID'')
     @ ''&response_type=code&redirect_uri='' @ template_text (env ''REACT_APP_REDIRECT_URI'')
     @ ''&scope=Mail.Read Mail.ReadWrite User.Read''"

record window =
  location_href :: string

definition handleMicrosoftLogin :: "env \<Rightarrow> window \<Rightarrow> window" where
  "handleMicrosoftLogin env w = w\<lparr> location_href := authorizeUrl env \<rparr>"

section \<open>The dashboard (components/Dashboard)\<close>

record Sentiment =
  label :: string
  score :: number

record AnalysisResults =
  priority_score :: number
  sentiment :: Sentiment
  summary :: string
  suggested_actions :: "string list"

record Email =
  email_id :: string
  subject :: string
  sender :: string
  category :: string
  analysis_results :: AnalysisResults

text \<open>An object literal used as a mapping keeps its keys in order: an association list.
  The counts are integral numbers.\<close>

type_synonym counts = "(string \<times> int) list"

record Metrics =
  total_emails :: int
  categories :: counts
  sentiment_distribution :: counts
  priority_distribution :: counts
  avg_response_time :: "number option"

record Dashboard =
  emails :: "Email list"
  metrics :: Metrics
  loading :: bool

text \<open>The three \<open>useState\<close> initial values.\<close>

definition initialState :: Dashboard where
  "initialState =
     \<lparr> emails = [],
       metrics = \<lparr> total_emails = 0, categories = [], sentiment_distribution = [],
                   priority_distribution = [], avg_response_time = None \<rparr>,
       loading = True \<rparr>"

definition setEmails :: "Email list \<Rightarrow> Dashboard \<Rightarrow> Dashboard" where
  "setEmails es s = s\<lparr> emails := es \<rparr>"

definition setMetrics :: "Metrics \<Rightarrow> Dashboard \<Rightarrow> Dashboard" where
  "setMetrics m s = s\<lparr> metrics := m \<rparr>"

definition setLoading :: "bool \<Rightarrow> Dashboard \<Rightarrow> Dashboard" where
  "setLoading b s = s\<lparr> loading := b \<rparr>"

definition mockEmails :: "Email list" where
  "mockEmails =
     [ \<lparr> email_id = ''1'', subject = ''Project Update Meeting'', sender = ''john@example.com'',
         category = ''Work'',
         analysis_results =
           \<lparr> priority_score = lit_0_8,
             sentiment = \<lparr> label = ''positive'', score = lit_0_9 \<rparr>,
             summary = ''Weekly project status update discussion'',
             suggested_actions = [''Schedule meeting'', ''Prepare report''] \<rparr> \<rparr>,
       \<lparr> email_id = ''2'', subject = ''Invoice Payment Due'', sender = ''billing@company.com'',
         category = ''Finance'',
         analysis_results =
           \<lparr> priority_score = lit_0_9,
             sentiment = \<lparr> label = ''neutral'', score = lit_0_5 \<rparr>,
             summary = ''Payment reminder for recent services'',
             suggested_actions = [''Review invoice'', ''Process payment''] \<rparr> \<rparr> ]"

definition mockMetrics :: Metrics where
  "mockMetrics =
     \<lparr> total_emails = 245,
       categories = [(''Work'', 45), (''Finance'', 28), (''Personal'', 32)],
       sentiment_distribution = [(''positive'', 120), (''neutral'', 85), (''negative'', 40)],
       priority_distribution = [(''high'', 58), (''medium'', 142), (''low'', 45)],
       avg_response_time = Some lit_2_5 \<rparr>"

text \<open>The body of the mount effect (\<open>useEffect(..., [])\<close>): three state updates, in the
  order of the source.\<close>

definition mountEffect :: "Dashboard \<Rightarrow> Dashboard" where
  "mountEffect s = setLoading False (setMetrics mockMetrics (setEmails mockEmails s))"

subsection \<open>What the component renders\<close>

text \<open>The four metrics cards. A property that the object does not have reads as
  \<open>undefined\<close> (\<open>None\<close>), and \<open>null\<close> and \<open>undefined\<close> render as nothing.\<close>

record MetricsCards =
  total_card :: int
  avg_response_card :: "number option"
  high_priority_card :: "int option"
  positive_sentiment_card :: "int option"

definition metricsCards :: "Metrics \<Rightarrow> MetricsCards" where
  "metricsCards m =
     \<lparr> total_card = total_emails m,
       avg_response_card = avg_response_time m,
       high_priority_card = map_of (priority_distribution m) ''high'',
       positive_sentiment_card = map_of (sentiment_distribution m) ''positive'' \<rparr>"

text \<open>One list item per email.\<close>

record ListItem =
  item_key :: string
  subject_text :: string
  badge_class :: string
  badge_text :: string
  from_text :: string
  category_class :: string
  category_text :: string
  summary_text :: string
  action_chips :: "(nat \<times> string) list"

definition priorityBadgeClass :: "Email \<Rightarrow> string" where
  "priorityBadgeClass email =
     ''ml-2 px-2 inline-flex text-xs leading-5 font-semibold rounded-full '' @
     (if js_gt (priority_score (analysis_results email)) lit_0_7
      then ''bg-red-100 text-red-800'' else ''bg-green-100 text-green-800'')"

definition priorityBadgeText :: "Email \<Rightarrow> string" where
  "priorityBadgeText email =
     (if js_gt (priority_score (analysis_results email)) lit_0_7
      then ''High Priority'' else ''Normal'')"

definition categoryBadgeClass :: "Email \<Rightarrow> string" where
  "categoryBadgeClass email =
     ''px-3 py-1 text-xs rounded-full '' @
     (if category email = ''Work''
      then ''bg-blue-100 text-blue-800'' else ''bg-purple-100 text-purple-800'')"

definition renderEmail :: "Email \<Rightarrow> ListItem" where
  "renderEmail email =
     \<lparr> item_key = email_id email,
       subject_text = subject email,
       badge_class = priorityBadgeClass email,
       badge_text = priorityBadgeText email,
       from_text = ''From: '' @ sender email,
       category_class = categoryBadgeClass email,
       category_text = category email,
       summary_text = summary (analysis_results email),
       action_chips = enumerate 0 (suggested_actions (analysis_results email)) \<rparr>"

text \<open>The page the user sees: the component's state, and the text in the search box.
  The \<open>input\<close> element has neither \<open>value\<close> nor \<open>onChange\<close>, so its text is kept by the
  browser alone; the Filter button has no \<open>onClick\<close>.\<close>

record Page =
  component :: Dashboard
  searchBox :: string

definition emailList :: "Page \<Rightarrow> ListItem list" where
  "emailList p = map renderEmail (emails (component p))"

definition cards :: "Page \<Rightarrow> MetricsCards" where
  "cards p = metricsCards (metrics (component p))"

datatype event = Mount | TypeSearch string | ClickFilter

fun step :: "event \<Rightarrow> Page \<Rightarrow> Page" where
  "step Mount p = p\<lparr> component := mountEffect (component p) \<rparr>"
| "step (TypeSearch t) p = p\<lparr> searchBox := t \<rparr>"
| "step ClickFilter p = p"

definition initialPage :: Page where
  "initialPage = \<lparr> component = initialState, searchBox = '''' \<rparr>"

definition run :: "event list \<Rightarrow> Page \<Rightarrow> Page" where
  "run evs p = foldl (\<lambda>q ev. step ev q) p evs"

definition sum_counts :: "counts \<Rightarrow> int" where
  "sum_counts kvs = sum_list (map snd kvs)"

text \<open>Reading the model: a number lies strictly above a real bound.\<close>

fun exceeds :: "number \<Rightarrow> real \<Rightarrow> bool" where
  "exceeds NaN q = False"
| "exceeds (Infinity neg) q = (\<not> neg)"
| "exceeds (Finite neg m e) q = (q < finite_value neg m e)"

text \<open>Reading a URL: the query string is what follows the first \<open>?\<close>, and its
  parameters are separated by \<open>&\<close>.\<close>

fun split_on :: "char \<Rightarrow> string \<Rightarrow> string list" where
  "split_on c [] = [[]]"
| "split_on c (x # xs) =
     (if x = c then [] # split_on c xs
      else (case split_on c xs of [] \<Rightarrow> [[x]] | w # ws \<Rightarrow> (x # w) # ws))"

definition query_params :: "string \<Rightarrow> string list" where
  "query_params url = split_on CHR ''&'' (drop 1 (dropWhile (\<lambda>c. c \<noteq> CHR ''?'') url))"

section \<open>The route guard\<close>

text \<open>
  C1. The guard admits the dashboard exactly for a session whose status is
  \<open>authenticated\<close>, which is exactly when \<open>isAuthenticated\<close> is set; for \<open>anonymous\<close>
  and \<open>pending\<close> it answers with the redirect to \<open>/login\<close>.
\<close>

theorem canAccess_iff_authenticated:
  "canAccess session = (status session = authenticated)
   \<and> (ProtectedRoute auth DashboardElement = DashboardElement) = isAuthenticated auth
   \<and> ProtectedRoute (useAuth session) DashboardElement =
       (if status session = authenticated then DashboardElement else Navigate ''/login'')
   \<and> \<not> canAccess (session\<lparr> status := anonymous \<rparr>)
   \<and> \<not> canAccess (session\<lparr> status := pending \<rparr>)"
  by (simp add: canAccess_def ProtectedRoute_def useAuth_def)

section \<open>The priority badge\<close>

lemma pow2_nonneg: "0 \<le> pow2 e"
  by (simp add: pow2_def)

lemma lit_0_7_below: "finite_value False 6305039478318694 (- 53) < 7 / 10"
  by (simp add: finite_value_def pow2_def)

text \<open>From exponent \<open>-53\<close> upwards every value is a multiple of \<open>2^-53\<close>.\<close>

lemma binary64_grid:
  assumes "- 53 \<le> e"
  shows "\<exists>k::nat. real m * pow2 e = real k / 2 ^ 53"
proof (cases "0 \<le> e")
  case True
  have "real m * pow2 e = real (m * 2 ^ nat e * 2 ^ 53) / 2 ^ 53"
    using True by (simp add: pow2_def)
  then show ?thesis by blast
next
  case False
  then have le: "nat (- e) \<le> 53" using assms by simp
  have "(2::real) ^ 53 = 2 ^ (53 - nat (- e)) * 2 ^ nat (- e)"
    using le by (simp flip: power_add)
  then have "real m * pow2 e = real (m * 2 ^ (53 - nat (- e))) / 2 ^ 53"
    using False by (simp add: pow2_def field_simps)
  then show ?thesis by blast
qed

text \<open>Below exponent \<open>-53\<close> a 53-bit significand stays under one half.\<close>

lemma binary64_small:
  assumes "e < - 53" "m < 2 ^ 53"
  shows "real m * pow2 e < 1 / 2"
proof -
  have "54 \<le> nat (- e)" using assms by simp
  then have "(2::real) ^ 54 \<le> 2 ^ nat (- e)"
    by (intro power_increasing) simp_all
  moreover have "real m < 2 ^ 53" using assms(2)
    by (metis of_nat_less_iff of_nat_numeral of_nat_power)
  ultimately have "real m * 2 ^ 54 < 2 ^ 53 * 2 ^ nat (- e)"
    by (intro mult_less_le_imp_less) simp_all
  then have "real m / 2 ^ nat (- e) < 2 ^ 53 / 2 ^ 54"
    by (simp add: field_simps)
  then show ?thesis using assms(1) by (simp add: pow2_def)
qed

text \<open>No binary64 value lies strictly between the literal \<open>0.7\<close> as it is stored and
  the real number seven tenths.\<close>

lemma no_binary64_between:
  assumes "m < 2 ^ 53" "6305039478318694 / 2 ^ 53 < real m * pow2 e"
  shows "7 / 10 < real m * pow2 e"
proof (cases "- 53 \<le> e")
  case True
  then obtain k :: nat where k: "real m * pow2 e = real k / 2 ^ 53"
    using binary64_grid by blast
  with assms(2) have "(6305039478318694::real) < real k"
    by (simp add: divide_less_cancel)
  then have "6305039478318694 < k" by linarith
  then have "6305039478318695 \<le> k" by simp
  then have "(6305039478318695::real) \<le> real k" by linarith
  then have "(6305039478318695::real) / 2 ^ 53 \<le> real k / 2 ^ 53"
    by (simp add: divide_right_mono)
  moreover have "(7::real) / 10 < 6305039478318695 / 2 ^ 53" by simp
  ultimately show ?thesis using k by linarith
next
  case False
  then have "real m * pow2 e < 1 / 2" using binary64_small assms(1) by simp
  moreover have "(1::real) / 2 < 6305039478318694 / 2 ^ 53" by simp
  ultimately show ?thesis using assms(2) by linarith
qed

lemma js_gt_lit_0_7:
  assumes "is_binary64 x"
  shows "js_gt x lit_0_7 = exceeds x (7 / 10)"
proof (cases x)
  case NaN
  then show ?thesis by (simp add: js_gt_def lit_0_7_def)
next
  case (Infinity neg)
  then show ?thesis by (simp add: js_gt_def lit_0_7_def)
next
  case (Finite neg m e)
  show ?thesis
  proof (cases neg)
    case True
    have "finite_value True m e \<le> 0"
      using pow2_nonneg [of e] by (simp add: finite_value_def)
    moreover have "0 < finite_value False 6305039478318694 (- 53)"
      by (simp add: finite_value_def pow2_def)
    ultimately show ?thesis
      using Finite True by (simp add: js_gt_def lit_0_7_def)
  next
    case False
    have m: "m < 2 ^ 53" using assms Finite by simp
    have "(finite_value False 6305039478318694 (- 53) < real m * pow2 e)
          = (7 / 10 < real m * pow2 e)"
    proof
      assume "finite_value False 6305039478318694 (- 53) < real m * pow2 e"
      then have "6305039478318694 / 2 ^ 53 < real m * pow2 e"
        by (simp add: finite_value_def pow2_def)
      then show "7 / 10 < real m * pow2 e" by (rule no_binary64_between [OF m])
    next
      assume "7 / 10 < real m * pow2 e"
      then show "finite_value False 6305039478318694 (- 53) < real m * pow2 e"
        using lit_0_7_below by linarith
    qed
    then show ?thesis
      using Finite False by (simp add: js_gt_def lit_0_7_def finite_value_def)
  qed
qed

text \<open>
  C2. For an email whose priority score is a binary64 number, the badge reads
  \<open>High Priority\<close> if and only if the score is strictly greater than seven tenths, and
  \<open>Normal\<close> otherwise; the colour class of the badge follows the same single test.
\<close>

theorem priority_badge_threshold:
  assumes "is_binary64 (priority_score (analysis_results email))"
  shows "(badge_text (renderEmail email) = ''High Priority'')
           = exceeds (priority_score (analysis_results email)) (7 / 10)
         \<and> badge_text (renderEmail email) =
             (if exceeds (priority_score (analysis_results email)) (7 / 10)
              then ''High Priority'' else ''Normal'')
         \<and> badge_class (renderEmail email) =
             ''ml-2 px-2 inline-flex text-xs leading-5 font-semibold rounded-full '' @
             (if exceeds (priority_score (analysis_results email)) (7 / 10)
              then ''bg-red-100 text-red-800'' else ''bg-green-100 text-green-800'')"
  using js_gt_lit_0_7 [OF assms]
  by (simp add: renderEmail_def priorityBadgeText_def priorityBadgeClass_def)

theorem priority_badge_threshold_witness:
  "is_binary64 (priority_score (analysis_results (mockEmails ! 0)))
   \<and> exceeds (priority_score (analysis_results (mockEmails ! 0))) (7 / 10)
   \<and> badge_text (renderEmail (mockEmails ! 0)) = ''High Priority''
   \<and> is_binary64 lit_0_7
   \<and> \<not> exceeds lit_0_7 (7 / 10)
   \<and> badge_text (renderEmail ((mockEmails ! 0)
         \<lparr> analysis_results := (analysis_results (mockEmails ! 0))
             \<lparr> priority_score := lit_0_7 \<rparr> \<rparr>)) = ''Normal''"
proof -
  let ?at = "(mockEmails ! 0)
         \<lparr> analysis_results := (analysis_results (mockEmails ! 0))
             \<lparr> priority_score := lit_0_7 \<rparr> \<rparr>"
  have h: "is_binary64 (priority_score (analysis_results (mockEmails ! 0)))"
    by (simp add: mockEmails_def lit_0_8_def)
  have e: "exceeds (priority_score (analysis_results (mockEmails ! 0))) (7 / 10)"
    by (simp add: mockEmails_def lit_0_8_def finite_value_def pow2_def)
  have h': "is_binary64 (priority_score (analysis_results ?at))"
    by (simp add: lit_0_7_def)
  have e': "\<not> exceeds lit_0_7 (7 / 10)"
    by (simp add: lit_0_7_def finite_value_def pow2_def)
  have b: "badge_text (renderEmail (mockEmails ! 0)) = ''High Priority''"
    using e priority_badge_threshold [OF h] by simp
  have b': "badge_text (renderEmail ?at) = ''Normal''"
    using e' priority_badge_threshold [OF h'] by simp
  show ?thesis
    using h e b h' e' b' by simp
qed

section \<open>The metrics the dashboard holds\<close>

lemma metrics_step:
  "metrics (component (step ev p)) = (if ev = Mount then mockMetrics else metrics (component p))"
  by (cases ev) (simp_all add: mountEffect_def setLoading_def setMetrics_def setEmails_def)

lemma metrics_run:
  "metrics (component (run evs p)) =
     (if Mount \<in> set evs then mockMetrics else metrics (component p))"
proof (induction evs arbitrary: p rule: rev_induct)
  case Nil
  show ?case by (simp add: run_def)
next
  case (snoc ev evs)
  have "run (evs @ [ev]) p = step ev (run evs p)"
    by (simp add: run_def)
  then show ?case
    using snoc [of p] by (simp add: metrics_step)
qed

text \<open>
  C3, as the program has it. In every snapshot the dashboard holds, before the mount
  effect and after it, whatever else the user does, the sentiment counts and the priority
  counts each sum to \<open>total_emails\<close>. The category counts sum to \<open>total_emails\<close> in the
  initial snapshot only: in the one set at mount they sum to 105, and the total is 245.
\<close>

theorem metrics_sums_held:
  "sum_counts (sentiment_distribution (metrics (component (run evs initialPage))))
     = total_emails (metrics (component (run evs initialPage)))
   \<and> sum_counts (priority_distribution (metrics (component (run evs initialPage))))
     = total_emails (metrics (component (run evs initialPage)))
   \<and> total_emails (metrics (component (run evs initialPage)))
     = (if Mount \<in> set evs then 245 else 0)
   \<and> sum_counts (categories (metrics (component (run evs initialPage))))
     = (if Mount \<in> set evs then 105 else 0)"
  by (simp add: metrics_run mockMetrics_def initialPage_def initialState_def sum_counts_def)

theorem categories_sum_counterexample:
  "sum_counts (categories (metrics (component (run [Mount] initialPage)))) = 105
   \<and> total_emails (metrics (component (run [Mount] initialPage))) = 245
   \<and> sum_counts (categories (metrics (component (run [Mount] initialPage))))
       \<noteq> total_emails (metrics (component (run [Mount] initialPage)))"
  by (simp add: run_def mountEffect_def setLoading_def setMetrics_def setEmails_def
      mockMetrics_def sum_counts_def)

text \<open>
  C4, as the program has it. The mount effect stores exactly the two records (priority
  0.8, positive, Work; priority 0.9, neutral, Finance) and, beside them, the fixed
  snapshot: total 245, categories Work 45, Finance 28, Personal 32, sentiment positive 120,
  neutral 85, negative 40, priority high 58, medium 142, low 45. The cards show 245, 2.5,
  58 and 120, and both records carry the badge \<open>High Priority\<close>.
\<close>

theorem mount_presents_fixed_metrics:
  "emails (component (step Mount p)) = mockEmails
   \<and> metrics (component (step Mount p)) =
       \<lparr> total_emails = 245,
         categories = [(''Work'', 45), (''Finance'', 28), (''Personal'', 32)],
         sentiment_distribution = [(''positive'', 120), (''neutral'', 85), (''negative'', 40)],
         priority_distribution = [(''high'', 58), (''medium'', 142), (''low'', 45)],
         avg_response_time = Some lit_2_5 \<rparr>
   \<and> cards (step Mount p) =
       \<lparr> total_card = 245, avg_response_card = Some lit_2_5,
         high_priority_card = Some 58, positive_sentiment_card = Some 120 \<rparr>
   \<and> map badge_text (emailList (step Mount p)) = [''High Priority'', ''High Priority'']"
proof -
  have e: "emails (component (step Mount p)) = mockEmails"
    by (simp add: mountEffect_def setLoading_def setMetrics_def setEmails_def)
  have m: "metrics (component (step Mount p)) = mockMetrics"
    by (simp add: mountEffect_def setLoading_def setMetrics_def setEmails_def)
  have c: "cards (step Mount p) =
       \<lparr> total_card = 245, avg_response_card = Some lit_2_5,
         high_priority_card = Some 58, positive_sentiment_card = Some 120 \<rparr>"
    unfolding cards_def m by (simp add: metricsCards_def mockMetrics_def)
  have b1: "js_gt lit_0_8 lit_0_7"
    by (simp add: js_gt_def lit_0_8_def lit_0_7_def finite_value_def pow2_def)
  have b2: "js_gt lit_0_9 lit_0_7"
    by (simp add: js_gt_def lit_0_9_def lit_0_7_def finite_value_def pow2_def)
  have b: "map badge_text (emailList (step Mount p)) = [''High Priority'', ''High Priority'']"
    unfolding emailList_def e
    by (simp add: mockEmails_def renderEmail_def priorityBadgeText_def b1 b2)
  show ?thesis
    using e m c b by (simp add: mockMetrics_def)
qed

theorem two_records_metrics_counterexample:
  "emails (component (run [Mount] initialPage)) = mockEmails
   \<and> length mockEmails = 2
   \<and> total_emails (metrics (component (run [Mount] initialPage))) \<noteq> 2
   \<and> categories (metrics (component (run [Mount] initialPage)))
       \<noteq> [(''Work'', 1), (''Finance'', 1)]
   \<and> sentiment_distribution (metrics (component (run [Mount] initialPage)))
       \<noteq> [(''positive'', 1), (''neutral'', 1)]
   \<and> priority_distribution (metrics (component (run [Mount] initialPage)))
       \<noteq> [(''high'', 2)]"
  by (simp add: run_def mountEffect_def setLoading_def setMetrics_def setEmails_def
      mockMetrics_def mockEmails_def)

text \<open>
  C9. The snapshot is the constant set by the mount effect, and replacing the emails
  collection by any other (which covers inserting, updating and removing records) leaves
  the metrics and the four cards as they were; so do typing in the search box and clicking
  Filter.
\<close>

theorem metrics_not_derived_from_emails:
  "metrics (setEmails es s) = metrics s
   \<and> cards (p\<lparr> component := setEmails es (component p) \<rparr>) = cards p
   \<and> cards (step (TypeSearch t) p) = cards p
   \<and> cards (step ClickFilter p) = cards p
   \<and> metrics (setEmails es (mountEffect s)) =
       \<lparr> total_emails = 245,
         categories = [(''Work'', 45), (''Finance'', 28), (''Personal'', 32)],
         sentiment_distribution = [(''positive'', 120), (''neutral'', 85), (''negative'', 40)],
         priority_distribution = [(''high'', 58), (''medium'', 142), (''low'', 45)],
         avg_response_time = Some lit_2_5 \<rparr>"
  by (simp add: setEmails_def cards_def mountEffect_def setLoading_def setMetrics_def
      mockMetrics_def)

section \<open>The email list and the search box\<close>

lemma emailList_keys: "map item_key (emailList p) = map email_id (emails (component p))"
  by (simp add: emailList_def renderEmail_def comp_def)

text \<open>
  C6. With an empty search box (there is no facet state at all) the list shows one item
  per record of the emails collection, in the order of the collection.
\<close>

theorem empty_query_shows_all:
  "emailList (p\<lparr> searchBox := '''' \<rparr>) = map renderEmail (emails (component p))
   \<and> map item_key (emailList (p\<lparr> searchBox := '''' \<rparr>)) = map email_id (emails (component p))
   \<and> emailList (step (TypeSearch '''') p) = map renderEmail (emails (component p))"
  by (simp add: emailList_def renderEmail_def comp_def)

text \<open>
  C7. Whatever the search box holds, the items shown are the renderings of a subsequence
  of the emails collection: their keys form a subsequence of the collection's ids, so no
  item is made up and none is shown more often than its record occurs.
\<close>

theorem shown_is_subsequence:
  "(\<exists>ys. subseq ys (emails (component p)) \<and> emailList p = map renderEmail ys)
   \<and> subseq (map item_key (emailList p)) (map email_id (emails (component p)))
   \<and> length (emailList p) \<le> length (emails (component p))"
proof -
  have "subseq (emails (component p)) (emails (component p))"
    by simp
  moreover have "emailList p = map renderEmail (emails (component p))"
    by (simp add: emailList_def)
  ultimately have "\<exists>ys. subseq ys (emails (component p)) \<and> emailList p = map renderEmail ys"
    by blast
  moreover have "subseq (map item_key (emailList p)) (map email_id (emails (component p)))"
    by (simp add: emailList_keys)
  moreover have "length (emailList p) \<le> length (emails (component p))"
    by (simp add: emailList_def)
  ultimately show ?thesis by blast
qed

text \<open>
  C10. Two pages with the same emails collection show the same list, the full collection
  in its order, whatever their search boxes hold; typing in the box or clicking Filter
  does not change the list.
\<close>

theorem list_independent_of_search:
  assumes "emails (component p) = emails (component q)"
  shows "emailList p = emailList q
         \<and> emailList p = map renderEmail (emails (component p))
         \<and> emailList (step (TypeSearch t) p) = emailList p
         \<and> emailList (step ClickFilter p) = emailList p"
  using assms by (simp add: emailList_def)

theorem list_independent_of_search_witness:
  "emails (component (run [Mount, TypeSearch ''invoice''] initialPage))
     = emails (component (run [Mount] initialPage))
   \<and> searchBox (run [Mount, TypeSearch ''invoice''] initialPage)
     \<noteq> searchBox (run [Mount] initialPage)
   \<and> emailList (run [Mount, TypeSearch ''invoice''] initialPage)
     = emailList (run [Mount] initialPage)
   \<and> map item_key (emailList (run [Mount, TypeSearch ''invoice''] initialPage)) = [''1'', ''2'']"
proof -
  have h: "emails (component (run [Mount, TypeSearch ''invoice''] initialPage))
     = emails (component (run [Mount] initialPage))"
    by (simp add: run_def)
  have s: "searchBox (run [Mount, TypeSearch ''invoice''] initialPage)
     \<noteq> searchBox (run [Mount] initialPage)"
    by (simp add: run_def initialPage_def)
  have k: "map item_key (emailList (run [Mount] initialPage)) = [''1'', ''2'']"
    by (simp add: emailList_keys run_def mountEffect_def setLoading_def setMetrics_def
        setEmails_def mockEmails_def)
  show ?thesis
    using h s k list_independent_of_search [OF h] by simp
qed

section \<open>Session expiry\<close>

lemma status_expire:
  "status (expire now session) =
     (if status session = authenticated \<and> expired now session then anonymous
      else status session)"
  by (simp add: expire_def)

text \<open>
  C5. A session whose \<open>expiresAt\<close> is in the past is treated as anonymous by a protected
  operation: the guard denies the dashboard and answers with the redirect to \<open>/login\<close>,
  also when the stored status is still \<open>authenticated\<close>. A session that has not expired
  is admitted exactly when its status is \<open>authenticated\<close>.
\<close>

theorem expired_session_denied:
  "(expired now session \<longrightarrow>
      \<not> canAccessAt now session
      \<and> status (expire now session) \<noteq> authenticated
      \<and> ProtectedRoute (useAuth (expire now session)) DashboardElement = Navigate ''/login'')
   \<and> canAccessAt now session = (status session = authenticated \<and> \<not> expired now session)"
proof -
  have g: "canAccessAt now session = (status (expire now session) = authenticated)"
    by (simp add: canAccessAt_def canAccess_def ProtectedRoute_def useAuth_def)
  have a: "canAccessAt now session = (status session = authenticated \<and> \<not> expired now session)"
    unfolding g status_expire by auto
  have r: "ProtectedRoute (useAuth (expire now session)) DashboardElement = Navigate ''/login''"
    if "expired now session"
    using that by (simp add: ProtectedRoute_def useAuth_def status_expire)
  show ?thesis
    using a r g by auto
qed

theorem expired_session_denied_witness:
  "expired 1000 \<lparr> status = authenticated, accessToken = Some ''token'', expiresAt = Some 0 \<rparr>
   \<and> status \<lparr> status = authenticated, accessToken = Some ''token'', expiresAt = Some 0 \<rparr>
       = authenticated
   \<and> \<not> canAccessAt 1000
       \<lparr> status = authenticated, accessToken = Some ''token'', expiresAt = Some 0 \<rparr>
   \<and> canAccessAt 1000
       \<lparr> status = authenticated, accessToken = Some ''token'', expiresAt = Some 2000 \<rparr>"
proof -
  let ?old = "\<lparr> status = authenticated, accessToken = Some ''token'', expiresAt = Some 0 \<rparr>"
  let ?live = "\<lparr> status = authenticated, accessToken = Some ''token'', expiresAt = Some 2000 \<rparr>"
  have h: "expired 1000 ?old"
    by (simp add: expired_def)
  have n: "\<not> expired 1000 ?live"
    by (simp add: expired_def)
  have d: "\<not> canAccessAt 1000 ?old"
    using h expired_session_denied [of 1000 ?old] by blast
  have l: "canAccessAt 1000 ?live"
    using n expired_session_denied [of 1000 ?live] by simp
  show ?thesis
    using h d l by simp
qed

section \<open>The authorization URL\<close>

lemma split_on_append:
  "c \<notin> set a \<Longrightarrow> split_on c (a @ c # rest) = a # split_on c rest"
  by (induction a) (auto split: list.splits)

lemma split_on_last: "c \<notin> set a \<Longrightarrow> split_on c a = [a]"
  by (induction a) (auto split: list.splits)

lemma dropWhile_query:
  "CHR ''?'' \<notin> set a \<Longrightarrow>
   dropWhile (\<lambda>c. c \<noteq> CHR ''?'') (a @ CHR ''?'' # rest) = CHR ''?'' # rest"
  by (induction a) auto

lemma authorizeUrl_form:
  assumes "env ''REACT_APP_TENANT_ID'' = Some tenant"
    and "env ''REACT_APP_CLIENT_ID'' = Some client"
    and "env ''REACT_APP_REDIRECT_URI'' = Some uri"
  shows "authorizeUrl env =
     ''https://login.microsoftonline.com/'' @ tenant @ ''/oauth2/v2.0/authorize''
     @ ''?client_id='' @ client @ ''&response_type=code'' @ ''&redirect_uri='' @ uri
     @ ''&scope=Mail.Read Mail.ReadWrite User.Read''"
  using assms by (simp add: authorizeUrl_def template_text_def)

lemma authorizeUrl_params:
  assumes "env ''REACT_APP_TENANT_ID'' = Some tenant"
    and "env ''REACT_APP_CLIENT_ID'' = Some client"
    and "env ''REACT_APP_REDIRECT_URI'' = Some uri"
    and "CHR ''?'' \<notin> set tenant" and "CHR ''&'' \<notin> set client" and "CHR ''&'' \<notin> set uri"
  shows "query_params (authorizeUrl env) =
     [''client_id='' @ client, ''response_type=code'', ''redirect_uri='' @ uri,
      ''scope=Mail.Read Mail.ReadWrite User.Read'']"
proof -
  let ?pre = "''https://login.microsoftonline.com/'' @ tenant @ ''/oauth2/v2.0/authorize''"
  let ?q = "(''client_id='' @ client) @ CHR ''&'' # ''response_type=code'' @ CHR ''&'' #
            (''redirect_uri='' @ uri) @ CHR ''&'' # ''scope=Mail.Read Mail.ReadWrite User.Read''"
  have u: "authorizeUrl env = ?pre @ CHR ''?'' # ?q"
    using assms(1-3) by (simp add: authorizeUrl_def template_text_def)
  have "CHR ''?'' \<notin> set ?pre" using assms(4) by simp
  then have "dropWhile (\<lambda>c. c \<noteq> CHR ''?'') (?pre @ CHR ''?'' # ?q) = CHR ''?'' # ?q"
    by (rule dropWhile_query)
  then have q: "query_params (authorizeUrl env) = split_on CHR ''&'' ?q"
    unfolding query_params_def u by simp
  have a: "CHR ''&'' \<notin> set (''client_id='' @ client)" using assms(5) by simp
  have b: "CHR ''&'' \<notin> set ''response_type=code''" by simp
  have c: "CHR ''&'' \<notin> set (''redirect_uri='' @ uri)" using assms(6) by simp
  have d: "CHR ''&'' \<notin> set ''scope=Mail.Read Mail.ReadWrite User.Read''" by simp
  show ?thesis
    unfolding q split_on_append [OF a] split_on_append [OF b] split_on_append [OF c]
      split_on_last [OF d]
    by simp
qed

text \<open>
  C8. With the three configuration values set, the login handler sends the browser to
  \<open>https://login.microsoftonline.com/{tenant}/oauth2/v2.0/authorize\<close> followed by the query
  \<open>client_id\<close>, \<open>response_type=code\<close>, \<open>redirect_uri\<close> and
  \<open>scope=Mail.Read Mail.ReadWrite User.Read\<close>, the values inserted as they are; where the
  tenant holds no \<open>?\<close> and the client id and the redirect URI hold no \<open>&\<close>, these four are
  the parameters of the query, in this order.
\<close>

theorem login_authorize_url:
  assumes "env ''REACT_APP_TENANT_ID'' = Some tenant"
    and "env ''REACT_APP_CLIENT_ID'' = Some client"
    and "env ''REACT_APP_REDIRECT_URI'' = Some uri"
  shows "location_href (handleMicrosoftLogin env w) =
     ''https://login.microsoftonline.com/'' @ tenant @ ''/oauth2/v2.0/authorize''
     @ ''?client_id='' @ client @ ''&response_type=code'' @ ''&redirect_uri='' @ uri
     @ ''&scope=Mail.Read Mail.ReadWrite User.Read''
   \<and> (CHR ''?'' \<notin> set tenant \<and> CHR ''&'' \<notin> set client \<and> CHR ''&'' \<notin> set uri \<longrightarrow>
       query_params (location_href (handleMicrosoftLogin env w)) =
         [''client_id='' @ client, ''response_type=code'', ''redirect_uri='' @ uri,
          ''scope=Mail.Read Mail.ReadWrite User.Read''])"
  using authorizeUrl_form [OF assms] authorizeUrl_params [OF assms]
  by (simp add: handleMicrosoftLogin_def)

theorem login_authorize_url_witness:
  "location_href
     (handleMicrosoftLogin
        [''REACT_APP_TENANT_ID'' \<mapsto> ''contoso'', ''REACT_APP_CLIENT_ID'' \<mapsto> ''app-1'',
         ''REACT_APP_REDIRECT_URI'' \<mapsto> ''http://localhost:3000/callback'']
        \<lparr> location_href = ''http://localhost:3000/login'' \<rparr>)
   = ''https://login.microsoftonline.com/contoso/oauth2/v2.0/authorize?client_id=app-1&response_type=code&redirect_uri=http://localhost:3000/callback&scope=Mail.Read Mail.ReadWrite User.Read''
   \<and> query_params
     (location_href
       (handleMicrosoftLogin
        [''REACT_APP_TENANT_ID'' \<mapsto> ''contoso'', ''REACT_APP_CLIENT_ID'' \<mapsto> ''app-1'',
         ''REACT_APP_REDIRECT_URI'' \<mapsto> ''http://localhost:3000/callback'']
        \<lparr> location_href = ''http://localhost:3000/login'' \<rparr>))
   = [''client_id=app-1'', ''response_type=code'',
      ''redirect_uri=http://localhost:3000/callback'',
      ''scope=Mail.Read Mail.ReadWrite User.Read'']"
proof -
  let ?env = "[''REACT_APP_TENANT_ID'' \<mapsto> ''contoso'', ''REACT_APP_CLIENT_ID'' \<mapsto> ''app-1'',
         ''REACT_APP_REDIRECT_URI'' \<mapsto> ''http://localhost:3000/callback'']"
  let ?w = "\<lparr> location_href = ''http://localhost:3000/login'' \<rparr>"
  have t: "?env ''REACT_APP_TENANT_ID'' = Some ''contoso''" by simp
  have c: "?env ''REACT_APP_CLIENT_ID'' = Some ''app-1''" by simp
  have u: "?env ''REACT_APP_REDIRECT_URI'' = Some ''http://localhost:3000/callback''" by simp
  have n: "CHR ''?'' \<notin> set ''contoso'' \<and> CHR ''&'' \<notin> set ''app-1''
           \<and> CHR ''&'' \<notin> set ''http://localhost:3000/callback''" by simp
  note r = login_authorize_url [OF t c u, of ?w]
  from r have a: "location_href (handleMicrosoftLogin ?env ?w) =
     ''https://login.microsoftonline.com/'' @ ''contoso'' @ ''/oauth2/v2.0/authorize''
     @ ''?client_id='' @ ''app-1'' @ ''&response_type=code'' @ ''&redirect_uri=''
     @ ''http://localhost:3000/callback'' @ ''&scope=Mail.Read Mail.ReadWrite User.Read''"
    by (rule conjunct1)
  from r n have b: "query_params (location_href (handleMicrosoftLogin ?env ?w)) =
         [''client_id='' @ ''app-1'', ''response_type=code'',
          ''redirect_uri='' @ ''http://localhost:3000/callback'',
          ''scope=Mail.Read Mail.ReadWrite User.Read'']"
    by blast
  show ?thesis
  proof (intro conjI)
    show "location_href (handleMicrosoftLogin ?env ?w) =
      ''https://login.microsoftonline.com/contoso/oauth2/v2.0/authorize?client_id=app-1&response_type=code&redirect_uri=http://localhost:3000/callback&scope=Mail.Read Mail.ReadWrite User.Read''"
      using a by simp
    show "query_params (location_href (handleMicrosoftLogin ?env ?w)) =
      [''client_id=app-1'', ''response_type=code'',
       ''redirect_uri=http://localhost:3000/callback'',
       ''scope=Mail.Read Mail.ReadWrite User.Read'']"
      using b by simp
  qed
qed

end
